theory Spec2Isabelle
  imports Complex_Main
begin

section \<open>The agent workflow of orchestrator.py\<close>

text \<open>
  The theory embeds \<^verbatim>\<open>src/predictive_maintenance_agent/orchestrator.py\<close>: the
  role-to-tool allow-list, the access wrapper, the tool functions, the six agent nodes,
  the decision router and the edges of the workflow graph.

  Conventions of the embedding.
  \<^item> A Python exception is a value of \<open>py_error\<close>; a computation that may raise and that
    reads or changes the outside world has type \<open>'a io\<close>: it takes the world and returns
    either the error or the result, together with the world afterwards.
  \<^item> The world holds the five CSV files under \<^verbatim>\<open>data/\<close> (absent, or a table whose columns
    are those written by \<^verbatim>\<open>generate_data.py\<close>), the language model and the scheduling
    backend (arbitrary functions, both may fail), and a trace of what was done.
  \<^item> The workflow state is the Python dictionary \<^verbatim>\<open>WorkflowState\<close>: a key is absent
    (\<open>None\<close>) or holds a value, and reading an absent key raises \<^verbatim>\<open>KeyError\<close>.
  \<^item> \<^verbatim>\<open>print\<close> is modelled for the two lines of the wrapper only (the events
    \<open>UebaAllowed\<close> and \<open>UebaDenied\<close>); the other console lines change nothing a node
    returns and are left out.
  \<^item> The field \<open>ueba_ctx\<close> of the world is a ghost: the source has no such variable, and no
    result, file or request depends on it. It names the wrapper call inside which the
    code is running, so that each recorded capability use says whether it was guarded.
\<close>

subsection \<open>Errors and values\<close>

datatype py_error =
    PermissionError string
  | KeyError string
  | IndexError
  | TypeError
  | ValueError
  | FileNotFoundError string
  | ExternalError string

text \<open>A decoded JSON document, as \<^verbatim>\<open>response.json()\<close> returns it.\<close>

datatype json =
    JNull
  | JBool bool
  | JNum int
  | JStr string
  | JArr "json list"
  | JObj "(string \<times> json) list"

subsection \<open>Rows of the CSV files\<close>

record telemetry_row =
  t_vehicle_id :: string
  t_timestamp :: string
  odometer_km :: int
  brake_fluid_pressure_psi :: rat
  brake_pad_thickness_mm :: rat
  dtc_code :: "string option"

record safety_row =
  component :: string
  safety_impact_score :: int

record customer_row =
  c_vehicle_id :: string
  c_customer_id :: string
  c_customer_name :: string
  driving_style :: string
  avg_daily_km :: int
  health_score :: int

record maintenance_row =
  record_id :: int
  m_vehicle_id :: string
  service_date :: string
  description :: string
  dtc_code_at_service :: "string option"

record rca_row =
  rca_id :: string
  part_number :: string
  part_name :: string
  failure_mode :: string
  root_cause :: string
  corrective_action_plan :: string

subsection \<open>The world outside the process\<close>

text \<open>
  The text of a prompt is a fixed template around the interpolated values, so a prompt
  is represented by those values.
\<close>

datatype prompt =
    DiagnosisPrompt string rat rat "string list"
  | XaiPrompt string string rat rat

datatype capability =
    ReadCsv string
  | WriteCsv string
  | HttpGet string
  | HttpPost string
  | LlmInvoke

datatype event =
    UebaAllowed string string
  | UebaDenied string string
  | Cap capability "(string \<times> string) option"

record world =
  telematics_csv :: "telemetry_row list option"
  safety_csv :: "safety_row list option"
  customers_csv :: "customer_row list option"
  maintenance_csv :: "maintenance_row list option"
  rca_csv :: "rca_row list option"
  llm_model :: "prompt \<Rightarrow> py_error + string"
  http_get :: "string \<Rightarrow> py_error + json"
  http_post :: "string \<Rightarrow> json \<Rightarrow> py_error + json"
  trace :: "event list"
  ueba_ctx :: "(string \<times> string) option"

type_synonym 'a io = "world \<Rightarrow> (py_error + 'a) \<times> world"

definition bind :: "'a io \<Rightarrow> ('a \<Rightarrow> 'b io) \<Rightarrow> 'b io" where
  "bind m f w = (case m w of (Inl e, w') \<Rightarrow> (Inl e, w') | (Inr x, w') \<Rightarrow> f x w')"

definition lift :: "py_error + 'a \<Rightarrow> 'a io" where
  "lift r w = (r, w)"

definition log_event :: "event \<Rightarrow> world \<Rightarrow> world" where
  "log_event e w = w\<lparr>trace := trace w @ [e]\<rparr>"

definition use_capability :: "capability \<Rightarrow> world \<Rightarrow> world" where
  "use_capability c w = log_event (Cap c (ueba_ctx w)) w"

subsection \<open>State definition\<close>

record workflow_state =
  vehicle_id :: "string option"
  customer_id :: "string option"
  anomaly_data :: "telemetry_row option"
  anomaly_details :: "string option"
  diagnosis :: "string option"
  drps_score :: "int option"
  xai_explanation :: "string option"
  customer_response :: "string option"
  customer_name :: "string option"
  appointment_slot :: "json option"
  booking_status :: "json option"
  final_insight :: "string option"
  error_message :: "string option"

text \<open>\<^verbatim>\<open>state[key]\<close>: the value, or \<^verbatim>\<open>KeyError\<close> when the key is absent.\<close>

definition getitem :: "string \<Rightarrow> 'a option \<Rightarrow> py_error + 'a" where
  "getitem key v = (case v of None \<Rightarrow> Inl (KeyError key) | Some x \<Rightarrow> Inr x)"

text \<open>The dictionary \<^verbatim>\<open>inputs = {}\<close> the workflow is started with.\<close>

definition empty_state :: workflow_state where
  "empty_state = \<lparr>vehicle_id = None, customer_id = None, anomaly_data = None,
     anomaly_details = None, diagnosis = None, drps_score = None, xai_explanation = None,
     customer_response = None, customer_name = None, appointment_slot = None,
     booking_status = None, final_insight = None, error_message = None\<rparr>"

subsection \<open>UEBA security layer\<close>

definition ALLOWED_TOOLS :: "(string \<times> string list) list" where
  "ALLOWED_TOOLS =
    [(''DataAnalysisAgent'', [''read_csv'']),
     (''DiagnosisAgent'', [''read_csv'', ''llm_invoke'']),
     (''CustomerEngagementAgent'', [''llm_invoke'']),
     (''SchedulingAgent'', [''get_service_slots'', ''book_appointment'']),
     (''FeedbackAgent'', [''read_csv'', ''write_csv'', ''llm_invoke''])]"

text \<open>\<^verbatim>\<open>ALLOWED_TOOLS.get(agent_name, [])\<close>\<close>

definition allowed_tools_get :: "string \<Rightarrow> string list" where
  "allowed_tools_get agent_name =
     (case map_of ALLOWED_TOOLS agent_name of None \<Rightarrow> [] | Some tools \<Rightarrow> tools)"

text \<open>The test of the wrapper: \<^verbatim>\<open>tool_name in ALLOWED_TOOLS.get(agent_name, [])\<close>.\<close>

definition permits :: "string \<Rightarrow> string \<Rightarrow> bool" where
  "permits agent_name tool_name = (tool_name \<in> set (allowed_tools_get agent_name))"

definition unauthorized_message :: "string \<Rightarrow> string \<Rightarrow> string" where
  "unauthorized_message agent_name tool_name =
     ''Unauthorized access attempt by '' @ agent_name @ '' on tool '' @ tool_name"

definition ueba_security_wrapper ::
  "string \<Rightarrow> string \<Rightarrow> ('a \<Rightarrow> 'b io) \<Rightarrow> 'a \<Rightarrow> 'b io" where
  "ueba_security_wrapper agent_name tool_name func args w =
     (if tool_name \<in> set (allowed_tools_get agent_name) then
        (case func args (log_event (UebaAllowed agent_name tool_name) w
                           \<lparr>ueba_ctx := Some (agent_name, tool_name)\<rparr>) of
           (r, w') \<Rightarrow> (r, w'\<lparr>ueba_ctx := ueba_ctx w\<rparr>))
      else
        (Inl (PermissionError (unauthorized_message agent_name tool_name)),
         log_event (UebaDenied agent_name tool_name) w))"

subsection \<open>Python and pandas primitives\<close>

text \<open>\<^verbatim>\<open>str(n)\<close> for a natural number.\<close>

definition digit_char :: "nat \<Rightarrow> char" where
  "digit_char d = ''0123456789'' ! d"

fun str_nat :: "nat \<Rightarrow> string" where
  "str_nat n = (if n < 10 then [digit_char n] else str_nat (n div 10) @ [digit_char (n mod 10)])"

declare str_nat.simps [simp del]

text \<open>\<^verbatim>\<open>int(x)\<close> for a number: truncation towards zero.\<close>

definition py_int :: "rat \<Rightarrow> int" where
  "py_int q = (if 0 \<le> q then \<lfloor>q\<rfloor> else \<lceil>q\<rceil>)"

text \<open>
  \<^verbatim>\<open>f"{x:.2f}"\<close>: the value rounded to two decimals (ties to even), with a sign, the
  integer digits, a point and two digits.
\<close>

definition round_half_even :: "rat \<Rightarrow> int" where
  "round_half_even x =
     (let f = \<lfloor>x\<rfloor>; d = x - of_int f
      in if d < 1 / 2 then f else if 1 / 2 < d then f + 1 else if even f then f else f + 1)"

definition format_2f :: "rat \<Rightarrow> string" where
  "format_2f q =
     (let h = nat (round_half_even (\<bar>q\<bar> * 100))
      in (if q < 0 then ''-'' else []) @ str_nat (h div 100) @ ''.''
           @ [digit_char (h mod 100 div 10), digit_char (h mod 10)])"

text \<open>\<^verbatim>\<open>s.strip()\<close> and \<^verbatim>\<open>s.replace(c, "")\<close> on ASCII text.\<close>

definition is_space :: "char \<Rightarrow> bool" where
  "is_space c = (c \<in> set [CHR 0x09, CHR 0x0A, CHR 0x0B, CHR 0x0C, CHR 0x0D,
                           CHR 0x1C, CHR 0x1D, CHR 0x1E, CHR 0x1F, CHR 0x20])"

definition py_strip :: "string \<Rightarrow> string" where
  "py_strip s = rev (dropWhile is_space (rev (dropWhile is_space s)))"

definition remove_char :: "char \<Rightarrow> string \<Rightarrow> string" where
  "remove_char c s = filter (\<lambda>x. x \<noteq> c) s"

text \<open>Line 81: \<^verbatim>\<open>.strip().replace("'", "").replace('"', '')\<close>\<close>

definition strip_and_unquote :: "string \<Rightarrow> string" where
  "strip_and_unquote content = remove_char (CHR 0x22) (remove_char (CHR 0x27) (py_strip content))"

text \<open>\<^verbatim>\<open>pd.read_csv(path)\<close> and \<^verbatim>\<open>df.to_csv(path)\<close> on a file of the world.\<close>

definition read_csv :: "string \<Rightarrow> (world \<Rightarrow> 'r list option) \<Rightarrow> 'r list io" where
  "read_csv path file w =
     (case file w of
        None \<Rightarrow> (Inl (FileNotFoundError path), use_capability (ReadCsv path) w)
      | Some df \<Rightarrow> (Inr df, use_capability (ReadCsv path) w))"

definition to_csv_customer_profiles :: "customer_row list \<Rightarrow> unit io" where
  "to_csv_customer_profiles df w =
     (Inr (), use_capability (WriteCsv ''data/customer_profiles.csv'') w
                \<lparr>customers_csv := Some df\<rparr>)"

text \<open>\<^verbatim>\<open>xs.iloc[0]\<close>\<close>

definition iloc0 :: "'a list \<Rightarrow> py_error + 'a" where
  "iloc0 xs = (case xs of [] \<Rightarrow> Inl IndexError | x # _ \<Rightarrow> Inr x)"

text \<open>
  \<^verbatim>\<open>df.loc[label]\<close> on a frame indexed by the column \<open>key\<close>: the rows with that label,
  \<^verbatim>\<open>KeyError\<close> when there is none. One row is a scalar row; several rows are a frame,
  on which the later \<^verbatim>\<open>int(...)\<close> or truth test of the source raises.
\<close>

definition loc_rows :: "('r \<Rightarrow> string) \<Rightarrow> string \<Rightarrow> 'r list \<Rightarrow> py_error + 'r list" where
  "loc_rows key label df =
     (case filter (\<lambda>r. key r = label) df of [] \<Rightarrow> Inl (KeyError label) | rows \<Rightarrow> Inr rows)"

text \<open>\<^verbatim>\<open>requests.get(url).json()\<close> and \<^verbatim>\<open>requests.post(url, json=payload).json()\<close>\<close>

definition requests_get_json :: "string \<Rightarrow> json io" where
  "requests_get_json url w = (http_get w url, use_capability (HttpGet url) w)"

definition requests_post_json :: "string \<Rightarrow> json \<Rightarrow> json io" where
  "requests_post_json url payload w = (http_post w url payload, use_capability (HttpPost url) w)"

text \<open>\<^verbatim>\<open>llm.invoke(prompt).content\<close>\<close>

definition llm_invoke :: "prompt \<Rightarrow> string io" where
  "llm_invoke p w = (llm_model w p, use_capability LlmInvoke w)"

text \<open>Subscripting a decoded JSON value with a string key and with a position.\<close>

fun json_getitem_str :: "json \<Rightarrow> string \<Rightarrow> py_error + json" where
  "json_getitem_str (JObj kvs) k =
     (case map_of (rev kvs) k of None \<Rightarrow> Inl (KeyError k) | Some v \<Rightarrow> Inr v)"
| "json_getitem_str _ k = Inl TypeError"

fun json_getitem_int :: "json \<Rightarrow> nat \<Rightarrow> py_error + json" where
  "json_getitem_int (JArr xs) i = (if i < length xs then Inr (xs ! i) else Inl IndexError)"
| "json_getitem_int (JStr s) i = (if i < length s then Inr (JStr [s ! i]) else Inl IndexError)"
| "json_getitem_int (JObj kvs) i = Inl (KeyError (str_nat i))"
| "json_getitem_int _ i = Inl TypeError"

subsection \<open>Tools definition\<close>

definition analyze_telemetry_data :: "unit \<Rightarrow> telemetry_row io" where
  "analyze_telemetry_data _ =
     bind (read_csv ''data/vehicle_telematics.csv'' telematics_csv) (\<lambda>telemetry_df.
     lift (iloc0 (filter (\<lambda>r. brake_fluid_pressure_psi r < 450) telemetry_df)))"

text \<open>
  The weighted sum of line 97:
  \<^verbatim>\<open>int((safety_score * 5) + (failure_risk_score * 3) + (customer_factor * 2))\<close>.
  The safety score is an integer column of the table and the customer factor is 9 or 5;
  the failure-risk score is \<^verbatim>\<open>0.92 * 10\<close>. The numbers of pandas are taken as exact
  integers and rationals: the wrap-around of its 64-bit integers and the rounding of
  its floats are not modelled. They do not change the result for safety scores below
  \<open>10\<^sup>1\<^sup>5\<close> in absolute value, where the product is exact and the sum ends in \<open>.6\<close>, far
  from the next integer.
\<close>

definition drps_formula :: "int \<Rightarrow> rat \<Rightarrow> int \<Rightarrow> int" where
  "drps_formula safety_score failure_risk_score customer_factor =
     py_int (of_int (safety_score * 5) + failure_risk_score * 3 + of_int (customer_factor * 2))"

definition get_diagnosis_and_drps :: "string \<times> telemetry_row \<Rightarrow> (string \<times> int) io" where
  "get_diagnosis_and_drps args =
     (case args of (vid, anomaly) \<Rightarrow>
     bind (read_csv ''data/safety_impact_scores.csv'' safety_csv) (\<lambda>safety_df.
     bind (read_csv ''data/customer_profiles.csv'' customers_csv) (\<lambda>customer_df.
     let valid_components = map component safety_df in
     bind (llm_invoke (DiagnosisPrompt vid (brake_fluid_pressure_psi anomaly)
                         (brake_pad_thickness_mm anomaly) valid_components)) (\<lambda>content.
     let predicted = strip_and_unquote content;
         failure_risk_prob = 92 / 100;
         predicted_component =
           (if predicted \<notin> set (map component safety_df) then ''Brakes'' else predicted) in
     bind (lift (loc_rows component predicted_component safety_df)) (\<lambda>safety_rows.
     bind (lift (loc_rows c_vehicle_id vid customer_df)) (\<lambda>profile.
     bind (lift (case profile of
                   [p] \<Rightarrow> Inr (if driving_style p = ''Highway'' then 9 else 5)
                 | _ \<Rightarrow> Inl ValueError)) (\<lambda>customer_factor.
     let failure_risk_score = failure_risk_prob * 10 in
     bind (lift (case safety_rows of
                   [s] \<Rightarrow> Inr (drps_formula (safety_impact_score s) failure_risk_score
                                  customer_factor)
                 | _ \<Rightarrow> Inl TypeError)) (\<lambda>drps.
     lift (Inr (predicted_component, drps))))))))))"

text \<open>
  The urgency sentence chosen by \<^verbatim>\<open>drps_score < 75\<close> is not interpolated into the
  prompt of the source, so the prompt does not depend on the score.
\<close>

definition generate_xai_customer_message ::
  "string \<times> int \<times> telemetry_row \<times> string \<Rightarrow> string io" where
  "generate_xai_customer_message args =
     (case args of (name, score, anomaly, diag) \<Rightarrow>
     llm_invoke (XaiPrompt name diag (brake_fluid_pressure_psi anomaly)
                   (brake_pad_thickness_mm anomaly)))"

definition get_service_slots :: "unit \<Rightarrow> json io" where
  "get_service_slots _ =
     bind (requests_get_json ''http://127.0.0.1:8000/scheduler/get_slots'') (\<lambda>response.
     lift (json_getitem_str response ''slots''))"

definition book_appointment :: "string \<times> json \<Rightarrow> json io" where
  "book_appointment args =
     (case args of (vid, slot) \<Rightarrow>
     requests_post_json ''http://127.0.0.1:8000/scheduler/book_slot''
       (JObj [(''vehicle_id'', JStr vid), (''slot'', slot)]))"

text \<open>Line 151: the number of maintenance records whose code is \<^verbatim>\<open>'C0204'\<close>.\<close>

definition recurrence_count :: "maintenance_row list \<Rightarrow> nat" where
  "recurrence_count maintenance_df =
     length (filter (\<lambda>m. dtc_code_at_service m = Some ''C0204'') maintenance_df)"

definition insight_text :: "string \<Rightarrow> nat \<Rightarrow> string" where
  "insight_text rca n =
     ''Failure linked to '' @ rca @ ''. This is the **'' @ str_nat (n + 1)
       @ ''th instance** of this defect recorded across the fleet. Recommend escalating for quality review.''"

definition perform_rca_and_update_score :: "string \<Rightarrow> (string \<times> int) io" where
  "perform_rca_and_update_score vid =
     bind (read_csv ''data/rca_records.csv'' rca_csv) (\<lambda>rca_df.
     bind (read_csv ''data/maintenance_logs.csv'' maintenance_csv) (\<lambda>maintenance_df.
     bind (read_csv ''data/customer_profiles.csv'' customers_csv) (\<lambda>customers_df.
     bind (lift (iloc0 (map rca_id rca_df))) (\<lambda>first_rca_id.
     let insight = insight_text first_rca_id (recurrence_count maintenance_df) in
     bind (lift (iloc0 (map health_score
                    (filter (\<lambda>c. c_vehicle_id c = vid) customers_df)))) (\<lambda>current_score.
     let new_score = current_score + 50 in
     bind (to_csv_customer_profiles
             (map (\<lambda>c. if c_vehicle_id c = vid then c\<lparr>health_score := new_score\<rparr> else c)
                customers_df)) (\<lambda>_.
     lift (Inr (insight, new_score))))))))"

subsection \<open>Agent nodes\<close>

text \<open>
  Lines 178 to 180 read \<^verbatim>\<open>state['vehicle_id']\<close> right after writing it, so the value
  read is the one written (\<open>vid\<close> below).
\<close>

definition data_analysis_node :: "workflow_state \<Rightarrow> workflow_state io" where
  "data_analysis_node state =
     bind (ueba_security_wrapper ''DataAnalysisAgent'' ''read_csv'' analyze_telemetry_data ())
       (\<lambda>anomaly_dict.
     bind (read_csv ''data/customer_profiles.csv'' customers_csv) (\<lambda>customer_df.
     let vid = t_vehicle_id anomaly_dict in
     bind (lift (iloc0 (map c_customer_id
                    (filter (\<lambda>c. c_vehicle_id c = vid) customer_df)))) (\<lambda>cid.
     bind (lift (iloc0 (map c_customer_name
                    (filter (\<lambda>c. c_vehicle_id c = vid) customer_df)))) (\<lambda>cname.
     lift (Inr (state\<lparr>vehicle_id := Some vid, customer_id := Some cid,
                  customer_name := Some cname, anomaly_data := Some anomaly_dict,
                  anomaly_details := Some (''Low pressure (''
                    @ format_2f (brake_fluid_pressure_psi anomaly_dict) @ '' psi) & thickness (''
                    @ format_2f (brake_pad_thickness_mm anomaly_dict) @ ''mm)'')\<rparr>))))))"

definition diagnosis_node :: "workflow_state \<Rightarrow> workflow_state io" where
  "diagnosis_node state =
     bind (lift (getitem ''vehicle_id'' (vehicle_id state))) (\<lambda>vid.
     bind (lift (getitem ''anomaly_data'' (anomaly_data state))) (\<lambda>anomaly.
     bind (ueba_security_wrapper ''DiagnosisAgent'' ''llm_invoke'' get_diagnosis_and_drps
             (vid, anomaly)) (\<lambda>result.
     lift (Inr (state\<lparr>diagnosis := Some (fst result), drps_score := Some (snd result)\<rparr>)))))"

definition customer_engagement_node :: "workflow_state \<Rightarrow> workflow_state io" where
  "customer_engagement_node state =
     bind (lift (getitem ''customer_name'' (customer_name state))) (\<lambda>name.
     bind (lift (getitem ''drps_score'' (drps_score state))) (\<lambda>score.
     bind (lift (getitem ''anomaly_data'' (anomaly_data state))) (\<lambda>anomaly.
     bind (lift (getitem ''diagnosis'' (diagnosis state))) (\<lambda>diag.
     bind (ueba_security_wrapper ''CustomerEngagementAgent'' ''llm_invoke''
             generate_xai_customer_message (name, score, anomaly, diag)) (\<lambda>xai_message.
     lift (Inr (state\<lparr>xai_explanation := Some xai_message,
                  customer_response := Some ''yes''\<rparr>)))))))"

text \<open>Lines 233 to 242 of \<^verbatim>\<open>scheduling_node\<close>: the authorized calls.\<close>

definition scheduling_authorized_calls :: "workflow_state \<Rightarrow> workflow_state io" where
  "scheduling_authorized_calls state =
     bind (ueba_security_wrapper ''SchedulingAgent'' ''get_service_slots'' get_service_slots ())
       (\<lambda>slots.
     bind (lift (json_getitem_int slots 1)) (\<lambda>chosen_slot.
     bind (lift (getitem ''vehicle_id'' (vehicle_id state))) (\<lambda>vid.
     bind (ueba_security_wrapper ''SchedulingAgent'' ''book_appointment'' book_appointment
             (vid, chosen_slot)) (\<lambda>booking.
     bind (lift (json_getitem_str booking ''status'')) (\<lambda>status.
     lift (Inr (state\<lparr>appointment_slot := Some chosen_slot,
                  booking_status := Some status\<rparr>)))))))"

text \<open>
  Lines 225 to 231: the \<^verbatim>\<open>try\<close> block. A \<^verbatim>\<open>PermissionError\<close> is caught and its text
  stored; any other exception leaves the node; without an exception the result of the
  call is dropped.
\<close>

definition scheduling_node :: "workflow_state \<Rightarrow> workflow_state io" where
  "scheduling_node state w =
     (case ueba_security_wrapper ''SchedulingAgent'' ''get_payment_history''
             (\<lambda>_. lift (Inr ''this should fail'')) () w of
        (Inl (PermissionError e), w') \<Rightarrow>
          scheduling_authorized_calls (state\<lparr>error_message := Some e\<rparr>) w'
      | (Inl err, w') \<Rightarrow> (Inl err, w')
      | (Inr _, w') \<Rightarrow> scheduling_authorized_calls state w')"

definition handle_declined_node :: "workflow_state \<Rightarrow> workflow_state io" where
  "handle_declined_node state =
     lift (Inr (state\<lparr>booking_status := Some (JStr ''Declined - Follow-up Scheduled'')\<rparr>))"

text \<open>
  The conditional function of the graph. It returns the label and, since it assigns to
  \<^verbatim>\<open>state['customer_response']\<close>, the dictionary as it leaves it.
\<close>

definition should_schedule :: "workflow_state \<Rightarrow> py_error + string \<times> workflow_state" where
  "should_schedule state =
     (case getitem ''drps_score'' (drps_score state) of
        Inl e \<Rightarrow> Inl e
      | Inr score \<Rightarrow>
          if score > 80
          then Inr (''continue_to_scheduling'', state\<lparr>customer_response := Some ''yes''\<rparr>)
          else Inr (''handle_decline'', state\<lparr>customer_response := Some ''no''\<rparr>))"

definition feedback_and_insight_node :: "workflow_state \<Rightarrow> workflow_state io" where
  "feedback_and_insight_node state =
     bind (lift (getitem ''vehicle_id'' (vehicle_id state))) (\<lambda>vid.
     bind (ueba_security_wrapper ''FeedbackAgent'' ''read_csv'' perform_rca_and_update_score vid)
       (\<lambda>result.
     lift (Inr (state\<lparr>final_insight := Some (fst result)\<rparr>))))"

subsection \<open>Graph definition and edges\<close>

datatype node =
    DataAnalysis
  | Diagnosis
  | CustomerEngagement
  | Scheduling
  | HandleDecline
  | FeedbackAndInsight

datatype successor =
    Edge node
  | ConditionalEdges "workflow_state \<Rightarrow> py_error + string \<times> workflow_state" "(string \<times> node) list"
  | EdgeEND

fun node_function :: "node \<Rightarrow> workflow_state \<Rightarrow> workflow_state io" where
  "node_function DataAnalysis = data_analysis_node"
| "node_function Diagnosis = diagnosis_node"
| "node_function CustomerEngagement = customer_engagement_node"
| "node_function Scheduling = scheduling_node"
| "node_function HandleDecline = handle_declined_node"
| "node_function FeedbackAndInsight = feedback_and_insight_node"

definition entry_point :: node where
  "entry_point = DataAnalysis"

fun edges :: "node \<Rightarrow> successor" where
  "edges DataAnalysis = Edge Diagnosis"
| "edges Diagnosis = Edge CustomerEngagement"
| "edges CustomerEngagement =
     ConditionalEdges should_schedule
       [(''continue_to_scheduling'', Scheduling), (''handle_decline'', HandleDecline)]"
| "edges Scheduling = Edge FeedbackAndInsight"
| "edges FeedbackAndInsight = EdgeEND"
| "edges HandleDecline = EdgeEND"

text \<open>
  The compiled graph runs one node after the other along the edges (the library
  langgraph does this; the repository only declares nodes and edges). A node that raises
  ends the run with its error. The conditional function receives the state the node
  returned and only its label is used. The run stops with an error after \<open>limit\<close> steps
  (the library's recursion limit, 25 by default).
\<close>

fun execute :: "nat \<Rightarrow> node \<Rightarrow> workflow_state \<Rightarrow> workflow_state io" where
  "execute 0 n state w = (Inl (ExternalError ''GraphRecursionError''), w)"
| "execute (Suc limit) n state w =
     (case node_function n state w of
        (Inl e, w') \<Rightarrow> (Inl e, w')
      | (Inr state', w') \<Rightarrow>
          (case edges n of
             EdgeEND \<Rightarrow> (Inr state', w')
           | Edge n' \<Rightarrow> execute limit n' state' w'
           | ConditionalEdges router ends \<Rightarrow>
               (case router state' of
                  Inl e \<Rightarrow> (Inl e, w')
                | Inr (label, _) \<Rightarrow>
                    (case map_of ends label of
                       None \<Rightarrow> (Inl (KeyError label), w')
                     | Some n' \<Rightarrow> execute limit n' state' w'))))"

definition app_invoke :: "workflow_state \<Rightarrow> workflow_state io" where
  "app_invoke inputs = execute 25 entry_point inputs"

subsection \<open>The data of generate_data.py and the backend of mock_api.py\<close>

definition generated_safety_scores :: "safety_row list" where
  "generated_safety_scores =
    [\<lparr>component = ''Brakes'', safety_impact_score = 10\<rparr>,
     \<lparr>component = ''Engine'', safety_impact_score = 9\<rparr>,
     \<lparr>component = ''Transmission'', safety_impact_score = 8\<rparr>,
     \<lparr>component = ''Steering'', safety_impact_score = 9\<rparr>,
     \<lparr>component = ''Suspension'', safety_impact_score = 7\<rparr>,
     \<lparr>component = ''Tires'', safety_impact_score = 8\<rparr>,
     \<lparr>component = ''AC System'', safety_impact_score = 3\<rparr>,
     \<lparr>component = ''Infotainment'', safety_impact_score = 1\<rparr>]"

definition generated_maintenance_logs :: "maintenance_row list" where
  "generated_maintenance_logs =
    [\<lparr>record_id = 1, m_vehicle_id = ''veh_003'', service_date = ''2025-05-10'',
       description = ''Annual Service'', dtc_code_at_service = None\<rparr>,
     \<lparr>record_id = 2, m_vehicle_id = ''veh_007'', service_date = ''2025-01-20'',
       description = ''Tire rotation'', dtc_code_at_service = None\<rparr>,
     \<lparr>record_id = 3, m_vehicle_id = ''veh_009'', service_date = ''2025-07-30'',
       description = ''Replaced brake master cylinder'', dtc_code_at_service = Some ''C0204''\<rparr>]"

definition generated_rca_records :: "rca_row list" where
  "generated_rca_records =
    [\<lparr>rca_id = ''RCA-112'', part_number = ''BCM-45-A2'', part_name = ''Brake Master Cylinder'',
       failure_mode = ''Internal Seal Degradation'',
       root_cause = ''Material impurity from supplier batch #XYZ'',
       corrective_action_plan = ''Recall batch #XYZ''\<rparr>]"

text \<open>
  The telemetry and the customer profiles are drawn at random by the generator; these
  are two rows of each, of the shape it writes.
\<close>

definition example_telematics :: "telemetry_row list" where
  "example_telematics =
    [\<lparr>t_vehicle_id = ''veh_001'', t_timestamp = ''2025-09-01 10:00:00'', odometer_km = 46000,
       brake_fluid_pressure_psi = 55012 / 100, brake_pad_thickness_mm = 1195 / 100,
       dtc_code = None\<rparr>,
     \<lparr>t_vehicle_id = ''veh_007'', t_timestamp = ''2025-09-01 10:00:00'', odometer_km = 52000,
       brake_fluid_pressure_psi = 30125 / 100, brake_pad_thickness_mm = 197 / 100,
       dtc_code = Some ''C0204''\<rparr>]"

definition example_customers :: "customer_row list" where
  "example_customers =
    [\<lparr>c_vehicle_id = ''veh_001'', c_customer_id = ''cust_101'', c_customer_name = ''Priya'',
       driving_style = ''City'', avg_daily_km = 40, health_score = 900\<rparr>,
     \<lparr>c_vehicle_id = ''veh_007'', c_customer_id = ''cust_107'', c_customer_name = ''Neha'',
       driving_style = ''Highway'', avg_daily_km = 120, health_score = 800\<rparr>]"

definition mock_http_get :: "string \<Rightarrow> py_error + json" where
  "mock_http_get url =
     (if url = ''http://127.0.0.1:8000/scheduler/get_slots''
      then Inr (JObj [(''slots'', JArr [JStr ''09:00 AM'', JStr ''11:00 AM'',
                                        JStr ''02:00 PM'', JStr ''04:00 PM''])])
      else Inl (ExternalError ''404''))"

text \<open>The booking number comes from Python's \<^verbatim>\<open>hash\<close>, here the parameter \<open>h\<close>.\<close>

definition mock_http_post :: "nat \<Rightarrow> string \<Rightarrow> json \<Rightarrow> py_error + json" where
  "mock_http_post h url payload =
     (if url = ''http://127.0.0.1:8000/scheduler/book_slot''
      then Inr (JObj [(''status'', JStr ''confirmed''),
                      (''booking_id'', JStr (''BK'' @ str_nat (h mod 10000)))])
      else Inl (ExternalError ''404''))"

definition example_llm :: "prompt \<Rightarrow> py_error + string" where
  "example_llm p =
     (case p of
        DiagnosisPrompt _ _ _ _ \<Rightarrow> Inr '' Brakes ''
      | XaiPrompt name _ _ _ \<Rightarrow> Inr (''Hello '' @ name @ '', this is AutoMate.''))"

definition example_world :: world where
  "example_world =
    \<lparr>telematics_csv = Some example_telematics, safety_csv = Some generated_safety_scores,
     customers_csv = Some example_customers, maintenance_csv = Some generated_maintenance_logs,
     rca_csv = Some generated_rca_records, llm_model = example_llm,
     http_get = mock_http_get, http_post = mock_http_post 4242,
     trace = [], ueba_ctx = None\<rparr>"

subsection \<open>Notions used to state the properties\<close>

text \<open>A capability used outside every call of the wrapper.\<close>

fun unguarded :: "event \<Rightarrow> bool" where
  "unguarded (Cap c None) = True"
| "unguarded _ = False"


text \<open>The state after the engagement node, with a given score.\<close>

definition engaged_state :: "int \<Rightarrow> workflow_state" where
  "engaged_state d =
     empty_state\<lparr>vehicle_id := Some ''veh_007'', drps_score := Some d,
       customer_response := Some ''yes''\<rparr>"

text \<open>
  A flagged record (420 psi, 6.5 mm) whose failure code is not \<^verbatim>\<open>'C0204'\<close>, the state
  after the data analysis node has selected it, and that state with a diagnosis.
\<close>

definition flagged_record :: telemetry_row where
  "flagged_record =
     \<lparr>t_vehicle_id = ''veh_007'', t_timestamp = ''2025-09-01 10:00:00'', odometer_km = 52000,
      brake_fluid_pressure_psi = 420, brake_pad_thickness_mm = 65 / 10,
      dtc_code = Some ''P0300''\<rparr>"

definition analysed_state :: workflow_state where
  "analysed_state =
     empty_state\<lparr>vehicle_id := Some ''veh_007'', customer_id := Some ''cust_107'',
       customer_name := Some ''Neha'', anomaly_data := Some flagged_record,
       anomaly_details := Some ''Low pressure (420.00 psi) & thickness (6.50mm)''\<rparr>"

definition other_code_state :: workflow_state where
  "other_code_state = analysed_state\<lparr>diagnosis := Some ''Engine''\<rparr>"

text \<open>A language model that answers with a component that is not in the table.\<close>

definition off_list_world :: world where
  "off_list_world = example_world\<lparr>llm_model := (\<lambda>p. Inr ''Gearbox'')\<rparr>"

text \<open>A safety table with a score above the scale of the generated one.\<close>

definition high_severity_world :: world where
  "high_severity_world =
     example_world\<lparr>safety_csv := Some [\<lparr>component = ''Brakes'', safety_impact_score = 20\<rparr>]\<rparr>"

text \<open>
  A computation is quiet when it leaves the wrapper context as it found it and adds no
  unguarded capability to the trace; with \<open>inside\<close> set this is required only of runs
  that start inside a call of the wrapper.
\<close>

definition quiet :: "bool \<Rightarrow> 'a io \<Rightarrow> bool" where
  "quiet inside m = (\<forall>w::world. (inside \<longrightarrow> ueba_ctx w \<noteq> None) \<longrightarrow>
       ueba_ctx (snd (m w)) = ueba_ctx w
       \<and> filter unguarded (trace (snd (m w))) = filter unguarded (trace w))"

section \<open>Properties\<close>

subsection \<open>Helper lemmas\<close>

lemma allowed_tools_get_cases:
  "allowed_tools_get r =
     (if r = ''DataAnalysisAgent'' then [''read_csv'']
      else if r = ''DiagnosisAgent'' then [''read_csv'', ''llm_invoke'']
      else if r = ''CustomerEngagementAgent'' then [''llm_invoke'']
      else if r = ''SchedulingAgent'' then [''get_service_slots'', ''book_appointment'']
      else if r = ''FeedbackAgent'' then [''read_csv'', ''write_csv'', ''llm_invoke'']
      else [])"
  by (simp add: allowed_tools_get_def ALLOWED_TOOLS_def)

lemma bind_eq_Inr:
  "bind m f w = (Inr y, w') \<longleftrightarrow> (\<exists>x w1. m w = (Inr x, w1) \<and> f x w1 = (Inr y, w'))"
  by (cases "m w") (auto simp: bind_def split: sum.splits)

lemma lift_eq_Inr: "lift r w = (Inr x, w') \<longleftrightarrow> r = Inr x \<and> w' = w"
  by (auto simp: lift_def)

lemma read_csv_eq_Inr:
  "read_csv path file w = (Inr df, w') \<longleftrightarrow>
     file w = Some df \<and> w' = use_capability (ReadCsv path) w"
  by (auto simp: read_csv_def split: option.splits)

lemma llm_invoke_eq_Inr:
  "llm_invoke p w = (Inr c, w') \<longleftrightarrow> llm_model w p = Inr c \<and> w' = use_capability LlmInvoke w"
  by (auto simp: llm_invoke_def)

lemma use_capability_files [simp]:
  "telematics_csv (use_capability c w) = telematics_csv w"
  "safety_csv (use_capability c w) = safety_csv w"
  "customers_csv (use_capability c w) = customers_csv w"
  "maintenance_csv (use_capability c w) = maintenance_csv w"
  "rca_csv (use_capability c w) = rca_csv w"
  "llm_model (use_capability c w) = llm_model w"
  "http_get (use_capability c w) = http_get w"
  "http_post (use_capability c w) = http_post w"
  "ueba_ctx (use_capability c w) = ueba_ctx w"
  by (simp_all add: use_capability_def log_event_def)

lemma loc_rows_eq_Inr:
  "loc_rows key label df = Inr rows \<longleftrightarrow> rows = filter (\<lambda>r. key r = label) df \<and> rows \<noteq> []"
  by (auto simp: loc_rows_def split: list.splits)


subsection \<open>The access wrapper and the policy\<close>

text \<open>
  C1. For every role, tool, callable and arguments: when the tool is in the allow-list of
  the role, the wrapper runs the callable once on the arguments and returns its result
  unchanged (the world is the one the callable leaves); when the tool is not in the
  allow-list, the wrapper raises \<^verbatim>\<open>PermissionError\<close> with a text that names the role and
  the tool, and the outcome does not depend on the callable: it is not run, the world
  only gains the line of the denial.
\<close>

theorem ueba_security_wrapper_allows_iff_listed:
  "(tool_name \<in> set (allowed_tools_get agent_name) \<longrightarrow>
      ueba_security_wrapper agent_name tool_name func args w =
        (fst (func args (log_event (UebaAllowed agent_name tool_name) w
                           \<lparr>ueba_ctx := Some (agent_name, tool_name)\<rparr>)),
         snd (func args (log_event (UebaAllowed agent_name tool_name) w
                           \<lparr>ueba_ctx := Some (agent_name, tool_name)\<rparr>))
           \<lparr>ueba_ctx := ueba_ctx w\<rparr>))
   \<and> (tool_name \<notin> set (allowed_tools_get agent_name) \<longrightarrow>
      ueba_security_wrapper agent_name tool_name func args w =
        (Inl (PermissionError
               (''Unauthorized access attempt by '' @ agent_name @ '' on tool '' @ tool_name)),
         log_event (UebaDenied agent_name tool_name) w))"
  by (simp add: ueba_security_wrapper_def unauthorized_message_def split: prod.splits)

theorem ueba_security_wrapper_allows_iff_listed_witness:
  "''get_service_slots'' \<in> set (allowed_tools_get ''SchedulingAgent'')
   \<and> fst (ueba_security_wrapper ''SchedulingAgent'' ''get_service_slots''
            get_service_slots () example_world)
       = Inr (JArr [JStr ''09:00 AM'', JStr ''11:00 AM'', JStr ''02:00 PM'', JStr ''04:00 PM''])
   \<and> ''get_payment_history'' \<notin> set (allowed_tools_get ''SchedulingAgent'')
   \<and> ueba_security_wrapper ''SchedulingAgent'' ''get_payment_history''
        get_service_slots () example_world
       = (Inl (PermissionError
                ''Unauthorized access attempt by SchedulingAgent on tool get_payment_history''),
          log_event (UebaDenied ''SchedulingAgent'' ''get_payment_history'') example_world)"
proof -
  have yes: "''get_service_slots'' \<in> set (allowed_tools_get ''SchedulingAgent'')"
    by (simp add: allowed_tools_get_cases)
  have no: "''get_payment_history'' \<notin> set (allowed_tools_get ''SchedulingAgent'')"
    by (simp add: allowed_tools_get_cases)
  have run: "fst (get_service_slots ()
                (log_event (UebaAllowed ''SchedulingAgent'' ''get_service_slots'') example_world
                   \<lparr>ueba_ctx := Some (''SchedulingAgent'', ''get_service_slots'')\<rparr>))
      = Inr (JArr [JStr ''09:00 AM'', JStr ''11:00 AM'', JStr ''02:00 PM'', JStr ''04:00 PM''])"
    by (simp add: get_service_slots_def bind_def requests_get_json_def lift_def log_event_def
          example_world_def mock_http_get_def)
  from ueba_security_wrapper_allows_iff_listed
         [of "''get_service_slots''" "''SchedulingAgent''" get_service_slots "()" example_world]
       yes run
  have 1: "fst (ueba_security_wrapper ''SchedulingAgent'' ''get_service_slots''
             get_service_slots () example_world)
       = Inr (JArr [JStr ''09:00 AM'', JStr ''11:00 AM'', JStr ''02:00 PM'', JStr ''04:00 PM''])"
    by simp
  from ueba_security_wrapper_allows_iff_listed
         [of "''get_payment_history''" "''SchedulingAgent''" get_service_slots "()" example_world]
       no
  have 2: "ueba_security_wrapper ''SchedulingAgent'' ''get_payment_history''
             get_service_slots () example_world
       = (Inl (PermissionError
                ''Unauthorized access attempt by SchedulingAgent on tool get_payment_history''),
          log_event (UebaDenied ''SchedulingAgent'' ''get_payment_history'') example_world)"
    by simp
  from yes no 1 2 show ?thesis by simp
qed

text \<open>
  C2. The permission check returns exactly the membership written in \<^verbatim>\<open>ALLOWED_TOOLS\<close>:
  a role is permitted a tool if and only if the pair is one of the nine listed, and a
  role that is not a key of the table has the empty list, so every tool is denied to it.
\<close>

theorem permits_is_static_membership:
  "(permits r c \<longleftrightarrow>
      (r, c) \<in> {(''DataAnalysisAgent'', ''read_csv''),
                 (''DiagnosisAgent'', ''read_csv''), (''DiagnosisAgent'', ''llm_invoke''),
                 (''CustomerEngagementAgent'', ''llm_invoke''),
                 (''SchedulingAgent'', ''get_service_slots''),
                 (''SchedulingAgent'', ''book_appointment''),
                 (''FeedbackAgent'', ''read_csv''), (''FeedbackAgent'', ''write_csv''),
                 (''FeedbackAgent'', ''llm_invoke'')})
   \<and> (map_of ALLOWED_TOOLS r = None \<longrightarrow> allowed_tools_get r = [] \<and> \<not> permits r c)"
proof -
  have a: "permits r c \<longleftrightarrow>
      (r, c) \<in> {(''DataAnalysisAgent'', ''read_csv''),
                 (''DiagnosisAgent'', ''read_csv''), (''DiagnosisAgent'', ''llm_invoke''),
                 (''CustomerEngagementAgent'', ''llm_invoke''),
                 (''SchedulingAgent'', ''get_service_slots''),
                 (''SchedulingAgent'', ''book_appointment''),
                 (''FeedbackAgent'', ''read_csv''), (''FeedbackAgent'', ''write_csv''),
                 (''FeedbackAgent'', ''llm_invoke'')}"
    unfolding permits_def allowed_tools_get_cases by auto
  have b: "map_of ALLOWED_TOOLS r = None \<longrightarrow> allowed_tools_get r = [] \<and> \<not> permits r c"
    by (simp add: permits_def allowed_tools_get_def)
  from a b show ?thesis by blast
qed

theorem permits_is_static_membership_witness:
  "map_of ALLOWED_TOOLS ''BillingAgent'' = None
   \<and> allowed_tools_get ''BillingAgent'' = []
   \<and> \<not> permits ''BillingAgent'' ''read_csv''
   \<and> \<not> permits ''SchedulingAgent'' ''get_payment_history''
   \<and> permits ''SchedulingAgent'' ''book_appointment''"
proof -
  have absent: "map_of ALLOWED_TOOLS ''BillingAgent'' = None"
    by (simp add: ALLOWED_TOOLS_def)
  from permits_is_static_membership [of "''BillingAgent''" "''read_csv''"] absent
  have 1: "allowed_tools_get ''BillingAgent'' = [] \<and> \<not> permits ''BillingAgent'' ''read_csv''"
    by simp
  from permits_is_static_membership [of "''SchedulingAgent''" "''get_payment_history''"]
  have 2: "\<not> permits ''SchedulingAgent'' ''get_payment_history''" by simp
  from permits_is_static_membership [of "''SchedulingAgent''" "''book_appointment''"]
  have 3: "permits ''SchedulingAgent'' ''book_appointment''" by simp
  from absent 1 2 3 show ?thesis by simp
qed

subsection \<open>The decision router\<close>

text \<open>
  C4. On a state whose score is \<open>d\<close>, \<^verbatim>\<open>should_schedule\<close> returns the label
  \<^verbatim>\<open>continue_to_scheduling\<close> exactly when \<open>d\<close> is greater than 80, and the label
  \<^verbatim>\<open>handle_decline\<close> exactly when it is not; so the label is the first for 81 and the
  second for 80.
\<close>

theorem should_schedule_label:
  "drps_score state = Some d \<Longrightarrow>
     ((\<exists>st. should_schedule state = Inr (''continue_to_scheduling'', st)) \<longleftrightarrow> 80 < d)
   \<and> ((\<exists>st. should_schedule state = Inr (''handle_decline'', st)) \<longleftrightarrow> \<not> 80 < d)"
  by (simp add: should_schedule_def getitem_def)

theorem should_schedule_label_witness:
  "drps_score (engaged_state 81) = Some 81
   \<and> (\<exists>st. should_schedule (engaged_state 81) = Inr (''continue_to_scheduling'', st))
   \<and> drps_score (engaged_state 80) = Some 80
   \<and> (\<exists>st. should_schedule (engaged_state 80) = Inr (''handle_decline'', st))"
proof -
  have a: "drps_score (engaged_state 81) = Some 81"
    by (simp add: engaged_state_def)
  have b: "drps_score (engaged_state 80) = Some 80"
    by (simp add: engaged_state_def)
  from should_schedule_label [OF a]
  have 1: "\<exists>st. should_schedule (engaged_state 81) = Inr (''continue_to_scheduling'', st)"
    by simp
  from should_schedule_label [OF b]
  have 2: "\<exists>st. should_schedule (engaged_state 80) = Inr (''handle_decline'', st)"
    by simp
  from a b 1 2 show ?thesis by simp
qed

text \<open>
  C7, as the source has it. \<^verbatim>\<open>should_schedule\<close> assigns to
  \<^verbatim>\<open>state['customer_response']\<close>: it leaves every other field of the state as it was,
  and sets that field to \<^verbatim>\<open>'yes'\<close> when the score is greater than 80 and to \<^verbatim>\<open>'no'\<close>
  otherwise.
\<close>

theorem should_schedule_changes_only_customer_response:
  assumes "should_schedule state = Inr (label, state')"
  shows "state' = state\<lparr>customer_response := customer_response state'\<rparr>
     \<and> (\<exists>d. drps_score state = Some d \<and>
           customer_response state' = Some (if 80 < d then ''yes'' else ''no''))"
proof (cases "drps_score state")
  case None
  with assms show ?thesis by (simp add: should_schedule_def getitem_def)
next
  case (Some d)
  show ?thesis
  proof (cases "80 < d")
    case True
    with Some assms have "state' = state\<lparr>customer_response := Some ''yes''\<rparr>"
      by (simp add: should_schedule_def getitem_def)
    with Some True show ?thesis by simp
  next
    case False
    with Some assms have "state' = state\<lparr>customer_response := Some ''no''\<rparr>"
      by (simp add: should_schedule_def getitem_def)
    with Some False show ?thesis by simp
  qed
qed

theorem should_schedule_changes_only_customer_response_witness:
  "should_schedule (engaged_state 81)
     = Inr (''continue_to_scheduling'', (engaged_state 81)\<lparr>customer_response := Some ''yes''\<rparr>)
   \<and> (engaged_state 81)\<lparr>customer_response := Some ''yes''\<rparr>
       = (engaged_state 81)\<lparr>customer_response :=
            customer_response ((engaged_state 81)\<lparr>customer_response := Some ''yes''\<rparr>)\<rparr>
   \<and> customer_response ((engaged_state 81)\<lparr>customer_response := Some ''yes''\<rparr>) = Some ''yes''"
proof -
  have run: "should_schedule (engaged_state 81)
     = Inr (''continue_to_scheduling'', (engaged_state 81)\<lparr>customer_response := Some ''yes''\<rparr>)"
    by (simp add: should_schedule_def getitem_def engaged_state_def)
  from should_schedule_changes_only_customer_response [OF run] run
  show ?thesis by simp
qed

text \<open>
  C7, as stated, fails: on the state left by the engagement node with score 80, where
  \<^verbatim>\<open>customer_response\<close> is \<^verbatim>\<open>'yes'\<close>, the router returns the state with
  \<^verbatim>\<open>customer_response\<close> set to \<^verbatim>\<open>'no'\<close>.
\<close>

theorem should_schedule_not_pure_counterexample:
  "should_schedule (engaged_state 80)
     = Inr (''handle_decline'', (engaged_state 80)\<lparr>customer_response := Some ''no''\<rparr>)
   \<and> customer_response ((engaged_state 80)\<lparr>customer_response := Some ''no''\<rparr>)
       \<noteq> customer_response (engaged_state 80)"
  by (simp add: should_schedule_def getitem_def engaged_state_def empty_state_def)

subsection \<open>The priority score\<close>



subsection \<open>More helper lemmas\<close>

lemmas run_defs =
  bind_def lift_def log_event_def use_capability_def getitem_def
  ueba_security_wrapper_def allowed_tools_get_cases unauthorized_message_def
  read_csv_def to_csv_customer_profiles_def iloc0_def loc_rows_def
  requests_get_json_def requests_post_json_def llm_invoke_def
  analyze_telemetry_data_def get_diagnosis_and_drps_def generate_xai_customer_message_def
  get_service_slots_def book_appointment_def perform_rca_and_update_score_def
  data_analysis_node_def diagnosis_node_def customer_engagement_node_def
  scheduling_authorized_calls_def scheduling_node_def handle_declined_node_def
  should_schedule_def feedback_and_insight_node_def Let_def

lemmas example_defs =
  example_world_def example_telematics_def example_customers_def generated_safety_scores_def
  generated_maintenance_logs_def generated_rca_records_def mock_http_get_def
  mock_http_post_def example_llm_def empty_state_def analysed_state_def flagged_record_def
  other_code_state_def high_severity_world_def off_list_world_def

lemmas string_defs = strip_and_unquote_def py_strip_def remove_char_def is_space_def

lemma log_event_files [simp]:
  "telematics_csv (log_event e w) = telematics_csv w"
  "safety_csv (log_event e w) = safety_csv w"
  "customers_csv (log_event e w) = customers_csv w"
  "maintenance_csv (log_event e w) = maintenance_csv w"
  "rca_csv (log_event e w) = rca_csv w"
  "llm_model (log_event e w) = llm_model w"
  "http_get (log_event e w) = http_get w"
  "http_post (log_event e w) = http_post w"
  "ueba_ctx (log_event e w) = ueba_ctx w"
  by (simp_all add: log_event_def)



lemma iloc0_eq_Inr: "iloc0 xs = Inr x \<longleftrightarrow> (\<exists>rest. xs = x # rest)"
  by (auto simp: iloc0_def split: list.splits)

lemma filter_singleton_mem:
  assumes "filter P xs = [x]"
  shows "x \<in> set xs \<and> P x"
proof -
  from assms have "x \<in> set (filter P xs)" by simp
  then show ?thesis by simp
qed

lemma filter_distinct_key:
  assumes "distinct (map f xs)" and "x \<in> set xs"
  shows "filter (\<lambda>r. f r = f x) xs = [x]"
  using assms
proof (induction xs)
  case Nil
  then show ?case by simp
next
  case (Cons a xs)
  show ?case
  proof (cases "a = x")
    case True
    from Cons.prems(1) have "f x \<notin> f ` set xs" using True by simp
    then have "filter (\<lambda>r. f r = f x) xs = []"
      by (auto simp: filter_empty_conv) (metis imageI)
    with True show ?thesis by simp
  next
    case False
    with Cons.prems have x: "x \<in> set xs" by simp
    with Cons.prems(1) have "f a \<noteq> f x" by auto
    with Cons.IH x Cons.prems(1) show ?thesis by simp
  qed
qed

subsection \<open>Which capability uses are guarded\<close>

lemma quietD:
  "quiet inside m \<Longrightarrow> (inside \<longrightarrow> ueba_ctx (w::world) \<noteq> None) \<Longrightarrow>
     ueba_ctx (snd (m w)) = ueba_ctx w
     \<and> filter unguarded (trace (snd (m w))) = filter unguarded (trace w)"
  unfolding quiet_def by blast

lemma quietI:
  "(\<And>w::world. (inside \<longrightarrow> ueba_ctx w \<noteq> None) \<Longrightarrow>
       ueba_ctx (snd (m w)) = ueba_ctx w
       \<and> filter unguarded (trace (snd (m w))) = filter unguarded (trace w))
   \<Longrightarrow> quiet inside m"
  unfolding quiet_def by blast

lemma quiet_lift: "quiet inside (lift r)"
  by (simp add: quiet_def lift_def)

lemma quiet_bind:
  assumes m: "quiet inside m" and f: "\<And>x. quiet inside (f x)"
  shows "quiet inside (bind m f)"
proof (rule quietI)
  fix w :: world
  assume p: "inside \<longrightarrow> ueba_ctx w \<noteq> None"
  obtain r w1 where run: "m w = (r, w1)" by (cases "m w")
  from quietD [OF m p] run have 1: "ueba_ctx w1 = ueba_ctx w"
      "filter unguarded (trace w1) = filter unguarded (trace w)"
    by simp_all
  show "ueba_ctx (snd (bind m f w)) = ueba_ctx w
       \<and> filter unguarded (trace (snd (bind m f w))) = filter unguarded (trace w)"
  proof (cases r)
    case (Inl e)
    with run 1 show ?thesis by (simp add: bind_def)
  next
    case (Inr x)
    from p 1 have "inside \<longrightarrow> ueba_ctx w1 \<noteq> None" by simp
    from quietD [OF f this, of x] run Inr 1 show ?thesis by (simp add: bind_def)
  qed
qed

text \<open>Inside a call of the wrapper, the primitives and the tool functions are quiet.\<close>

lemma quiet_primitives:
  "quiet True (read_csv path file)"
  "quiet True (to_csv_customer_profiles df)"
  "quiet True (requests_get_json url)"
  "quiet True (requests_post_json url payload)"
  "quiet True (llm_invoke p)"
  by (auto simp: quiet_def read_csv_def to_csv_customer_profiles_def requests_get_json_def
        requests_post_json_def llm_invoke_def use_capability_def log_event_def
        split: option.splits)

lemma quiet_tools:
  "quiet True (analyze_telemetry_data u)"
  "quiet True (get_diagnosis_and_drps da)"
  "quiet True (generate_xai_customer_message xa)"
  "quiet True (get_service_slots u)"
  "quiet True (book_appointment ba)"
  "quiet True (perform_rca_and_update_score vid)"
proof -
  show "quiet True (analyze_telemetry_data u)"
    unfolding analyze_telemetry_data_def
    by (intro quiet_bind quiet_lift quiet_primitives)
  show "quiet True (get_diagnosis_and_drps da)"
    unfolding get_diagnosis_and_drps_def Let_def
    by (cases da) (simp, intro quiet_bind quiet_lift quiet_primitives)
  show "quiet True (generate_xai_customer_message xa)"
    unfolding generate_xai_customer_message_def
    by (cases xa) (simp add: quiet_primitives)
  show "quiet True (get_service_slots u)"
    unfolding get_service_slots_def
    by (intro quiet_bind quiet_lift quiet_primitives)
  show "quiet True (book_appointment ba)"
    unfolding book_appointment_def
    by (cases ba) (simp add: quiet_primitives)
  show "quiet True (perform_rca_and_update_score vid)"
    unfolding perform_rca_and_update_score_def Let_def
    by (intro quiet_bind quiet_lift quiet_primitives)
qed

text \<open>A call of the wrapper is quiet wherever it is made.\<close>

lemma quiet_wrapper:
  assumes "\<And>x. quiet True (func x)"
  shows "quiet False (ueba_security_wrapper agent_name tool_name func args)"
proof -
  have "ueba_ctx (snd (ueba_security_wrapper agent_name tool_name func args w)) = ueba_ctx w
     \<and> filter unguarded (trace (snd (ueba_security_wrapper agent_name tool_name func args w)))
         = filter unguarded (trace w)" for w
  proof (cases "tool_name \<in> set (allowed_tools_get agent_name)")
    case True
    define w0 where "w0 = log_event (UebaAllowed agent_name tool_name) w
                \<lparr>ueba_ctx := Some (agent_name, tool_name)\<rparr>"
    obtain r w1 where run: "func args w0 = (r, w1)" by (cases "func args w0")
    have "ueba_ctx w0 \<noteq> None" by (simp add: w0_def)
    then have "True \<longrightarrow> ueba_ctx w0 \<noteq> None" by simp
    from quietD [OF assms this, of args] run
    have "filter unguarded (trace w1) = filter unguarded (trace w0)"
      by simp
    also have "\<dots> = filter unguarded (trace w)"
      by (simp add: w0_def log_event_def)
    finally have "filter unguarded (trace w1) = filter unguarded (trace w)" .
    with True run show ?thesis
      by (simp add: ueba_security_wrapper_def w0_def)
  next
    case False
    then show ?thesis by (simp add: ueba_security_wrapper_def log_event_def)
  qed
  then show ?thesis by (simp add: quiet_def)
qed

lemma scheduling_node_unfold:
  "scheduling_node state w =
     scheduling_authorized_calls
       (state\<lparr>error_message :=
          Some ''Unauthorized access attempt by SchedulingAgent on tool get_payment_history''\<rparr>)
       (log_event (UebaDenied ''SchedulingAgent'' ''get_payment_history'') w)"
  by (simp add: scheduling_node_def ueba_security_wrapper_def allowed_tools_get_cases
        unauthorized_message_def)

text \<open>
  The nodes other than the data analysis node use capabilities only inside calls of the
  wrapper.
\<close>

lemma other_nodes_guarded:
  "quiet False (diagnosis_node state)"
  "quiet False (customer_engagement_node state)"
  "quiet False (scheduling_authorized_calls state)"
  "quiet False (handle_declined_node state)"
  "quiet False (feedback_and_insight_node state)"
  unfolding diagnosis_node_def customer_engagement_node_def scheduling_authorized_calls_def
    handle_declined_node_def feedback_and_insight_node_def
  by (intro quiet_bind quiet_lift quiet_wrapper quiet_tools)+

lemma scheduling_node_guarded: "quiet False (scheduling_node state)"
proof -
  have "quiet False (scheduling_authorized_calls
       (state\<lparr>error_message :=
          Some ''Unauthorized access attempt by SchedulingAgent on tool get_payment_history''\<rparr>))"
    by (rule other_nodes_guarded)
  then show ?thesis
    by (simp add: quiet_def scheduling_node_unfold log_event_def)
qed

text \<open>
  C3 fails in the data analysis node. On the initial state and the example files, the
  node reads the telemetry inside the wrapper, under the role \<^verbatim>\<open>DataAnalysisAgent\<close>, and
  then reads \<^verbatim>\<open>data/customer_profiles.csv\<close> (line 175) outside every call of the
  wrapper: the trace records that read with no guarding role.
\<close>

theorem data_analysis_node_reads_outside_wrapper:
  "trace (snd (data_analysis_node empty_state example_world)) =
     [UebaAllowed ''DataAnalysisAgent'' ''read_csv'',
      Cap (ReadCsv ''data/vehicle_telematics.csv'') (Some (''DataAnalysisAgent'', ''read_csv'')),
      Cap (ReadCsv ''data/customer_profiles.csv'') None]
   \<and> filter unguarded (trace (snd (data_analysis_node empty_state example_world))) =
     [Cap (ReadCsv ''data/customer_profiles.csv'') None]"
  by (simp add: run_defs example_defs)

subsection \<open>The scheduling node\<close>






lemma execute_scheduling_then_feedback:
  assumes "scheduling_node state w = (Inr s1, w1)"
    and "feedback_and_insight_node s1 w1 = (Inr s2, w2)"
  shows "execute (Suc (Suc limit)) Scheduling state w = (Inr s2, w2)"
  using assms by simp

text \<open>
  When the scheduling backend answers with at least two slots and a booking status, and
  the files of the feedback step are there with an RCA record and a profile of the
  vehicle, the run from the scheduling node ends at the terminal edge with this state.
\<close>

lemma scheduling_run_reaches_end:
  assumes vid: "vehicle_id state = Some vid"
    and get: "http_get w ''http://127.0.0.1:8000/scheduler/get_slots'' = Inr response"
    and slots: "json_getitem_str response ''slots'' = Inr slots"
    and slot: "json_getitem_int slots 1 = Inr slot"
    and post: "http_post w ''http://127.0.0.1:8000/scheduler/book_slot''
                 (JObj [(''vehicle_id'', JStr vid), (''slot'', slot)]) = Inr booking"
    and status: "json_getitem_str booking ''status'' = Inr status"
    and rca: "rca_csv w = Some (r # rs)"
    and maint: "maintenance_csv w = Some maintenance_df"
    and cust: "customers_csv w = Some customers_df"
    and mine: "filter (\<lambda>c. c_vehicle_id c = vid) customers_df = c0 # cs"
  shows "fst (execute (Suc (Suc limit)) Scheduling state w)
     = Inr (state\<lparr>appointment_slot := Some slot, booking_status := Some status,
              final_insight := Some (insight_text (rca_id r) (recurrence_count maintenance_df)),
              error_message :=
                Some ''Unauthorized access attempt by SchedulingAgent on tool get_payment_history''\<rparr>)"
proof -
  have 1: "scheduling_node state w =
     (Inr (state\<lparr>appointment_slot := Some slot, booking_status := Some status,
              error_message :=
                Some ''Unauthorized access attempt by SchedulingAgent on tool get_payment_history''\<rparr>),
      snd (scheduling_node state w))"
    using vid get slots slot post status
    by (simp add: run_defs)
  have same: "rca_csv (snd (scheduling_node state w)) = rca_csv w"
    "maintenance_csv (snd (scheduling_node state w)) = maintenance_csv w"
    "customers_csv (snd (scheduling_node state w)) = customers_csv w"
    using vid get slots slot post status
    by (simp_all add: run_defs)
  have 2: "fst (feedback_and_insight_node
       (state\<lparr>appointment_slot := Some slot, booking_status := Some status,
              error_message :=
                Some ''Unauthorized access attempt by SchedulingAgent on tool get_payment_history''\<rparr>)
       (snd (scheduling_node state w)))
     = Inr (state\<lparr>appointment_slot := Some slot, booking_status := Some status,
              final_insight := Some (insight_text (rca_id r) (recurrence_count maintenance_df)),
              error_message :=
                Some ''Unauthorized access attempt by SchedulingAgent on tool get_payment_history''\<rparr>)"
    using vid rca maint cust mine same
    by (simp add: feedback_and_insight_node_def perform_rca_and_update_score_def bind_def lift_def
        getitem_def ueba_security_wrapper_def allowed_tools_get_cases read_csv_def iloc0_def
        to_csv_customer_profiles_def Let_def split: prod.splits)
  obtain w2 where 3: "feedback_and_insight_node
       (state\<lparr>appointment_slot := Some slot, booking_status := Some status,
              error_message :=
                Some ''Unauthorized access attempt by SchedulingAgent on tool get_payment_history''\<rparr>)
       (snd (scheduling_node state w))
     = (Inr (state\<lparr>appointment_slot := Some slot, booking_status := Some status,
              final_insight := Some (insight_text (rca_id r) (recurrence_count maintenance_df)),
              error_message :=
                Some ''Unauthorized access attempt by SchedulingAgent on tool get_payment_history''\<rparr>), w2)"
    using 2 by (metis prod.collapse)
  from 1 3 have "execute (Suc (Suc limit)) Scheduling state w
     = (Inr (state\<lparr>appointment_slot := Some slot, booking_status := Some status,
              final_insight := Some (insight_text (rca_id r) (recurrence_count maintenance_df)),
              error_message :=
                Some ''Unauthorized access attempt by SchedulingAgent on tool get_payment_history''\<rparr>), w2)"
    by (rule execute_scheduling_then_feedback)
  then show ?thesis by simp
qed



subsection \<open>The diagnosis step\<close>

text \<open>What a successful call of \<^verbatim>\<open>get_diagnosis_and_drps\<close> has read and computed.\<close>

lemma get_diagnosis_and_drps_success:
  assumes "get_diagnosis_and_drps (vid, anomaly) w = (Inr (c, d), w')"
  obtains df cdf content s p where
    "safety_csv w = Some df" and "customers_csv w = Some cdf"
    and "llm_model w (DiagnosisPrompt vid (brake_fluid_pressure_psi anomaly)
                      (brake_pad_thickness_mm anomaly) (map component df)) = Inr content"
    and "c = (if strip_and_unquote content \<notin> set (map component df) then ''Brakes''
            else strip_and_unquote content)"
    and "filter (\<lambda>r. component r = c) df = [s]"
    and "filter (\<lambda>r. c_vehicle_id r = vid) cdf = [p]"
    and "d = drps_formula (safety_impact_score s) (92 / 100 * 10)
             (if driving_style p = ''Highway'' then 9 else 5)"
proof -
  from assms obtain df cdf content srows prows cf where
    1: "safety_csv w = Some df" and 2: "customers_csv w = Some cdf"
    and 3: "llm_model w (DiagnosisPrompt vid (brake_fluid_pressure_psi anomaly)
                      (brake_pad_thickness_mm anomaly) (map component df)) = Inr content"
    and 4: "srows = filter (\<lambda>r. component r =
               (if strip_and_unquote content \<notin> set (map component df) then ''Brakes''
                else strip_and_unquote content)) df"
    and 5: "prows = filter (\<lambda>r. c_vehicle_id r = vid) cdf"
    and 6: "(case prows of [p] \<Rightarrow> Inr (if driving_style p = ''Highway'' then 9 else 5)
             | _ \<Rightarrow> Inl ValueError) = Inr cf"
    and 7: "(case srows of [s] \<Rightarrow> Inr (drps_formula (safety_impact_score s) (92 / 100 * 10) cf)
             | _ \<Rightarrow> Inl TypeError) = Inr d"
    and 8: "c = (if strip_and_unquote content \<notin> set (map component df) then ''Brakes''
                else strip_and_unquote content)"
    unfolding get_diagnosis_and_drps_def Let_def prod.case
      bind_eq_Inr read_csv_eq_Inr llm_invoke_eq_Inr lift_eq_Inr loc_rows_eq_Inr
    by (clarsimp simp del: set_map)
  from 6 obtain p where p: "prows = [p]" "cf = (if driving_style p = ''Highway'' then 9 else 5)"
    by (auto split: list.splits)
  from 7 obtain s where s: "srows = [s]"
      "d = drps_formula (safety_impact_score s) (92 / 100 * 10) cf"
    by (auto split: list.splits)
  show thesis
    using that [OF 1 2 3 8, of s p] 4 5 p s 8 by simp
qed

text \<open>
  When the table has one row per component and a row for \<^verbatim>\<open>Brakes\<close>, the vehicle has one
  profile and the model answers, the call returns, whatever the answer is.
\<close>

lemma get_diagnosis_and_drps_returns:
  assumes df: "safety_csv w = Some df" and dist: "distinct (map component df)"
    and brakes: "''Brakes'' \<in> set (map component df)"
    and cdf: "customers_csv w = Some cdf"
    and p: "filter (\<lambda>r. c_vehicle_id r = vid) cdf = [p]"
    and llm: "llm_model w (DiagnosisPrompt vid (brake_fluid_pressure_psi anomaly)
                (brake_pad_thickness_mm anomaly) (map component df)) = Inr content"
  shows "\<exists>s. s \<in> set df
     \<and> component s = (if strip_and_unquote content \<in> set (map component df)
                       then strip_and_unquote content else ''Brakes'')
     \<and> fst (get_diagnosis_and_drps (vid, anomaly) w)
         = Inr (component s, drps_formula (safety_impact_score s) (92 / 100 * 10)
                  (if driving_style p = ''Highway'' then 9 else 5))"
proof -
  define c where "c = (if strip_and_unquote content \<in> set (map component df)
                       then strip_and_unquote content else ''Brakes'')"
  with brakes have "c \<in> set (map component df)" by simp
  then obtain s where s: "s \<in> set df" "component s = c" by auto
  with dist have one: "filter (\<lambda>r. component r = c) df = [s]"
    using filter_distinct_key [of component df s] by simp
  have "fst (get_diagnosis_and_drps (vid, anomaly) w)
         = Inr (c, drps_formula (safety_impact_score s) (92 / 100 * 10)
                  (if driving_style p = ''Highway'' then 9 else 5))"
  proof (cases "strip_and_unquote content \<in> set (map component df)")
    case True
    with one c_def have "filter (\<lambda>r. component r = strip_and_unquote content) df = [s]"
      "c = strip_and_unquote content" by simp_all
    with df cdf p llm True show ?thesis
      by (simp add: get_diagnosis_and_drps_def bind_def read_csv_def llm_invoke_def lift_def
            loc_rows_def Let_def del: set_map)
  next
    case False
    with one c_def have "filter (\<lambda>r. component r = ''Brakes'') df = [s]"
      "c = ''Brakes''" by simp_all
    with df cdf p llm False show ?thesis
      by (simp add: get_diagnosis_and_drps_def bind_def read_csv_def llm_invoke_def lift_def
            loc_rows_def Let_def del: set_map)
  qed
  with s c_def show ?thesis by blast
qed




subsection \<open>The range of the priority score\<close>

lemma drps_formula_demo:
  assumes s: "0 \<le> s" and cf: "0 \<le> cf"
  shows "drps_formula s (92 / 100 * 10) cf = s * 5 + 27 + cf * 2"
proof -
  have "of_int (s * 5) + (92 / 100 * 10) * 3 + of_int (cf * 2)
          = (of_int (s * 5 + 27 + cf * 2) + 3 / 5 :: rat)"
    by simp
  moreover have "\<lfloor>of_int (s * 5 + 27 + cf * 2) + 3 / 5 :: rat\<rfloor> = s * 5 + 27 + cf * 2"
    by (rule floor_unique) simp_all
  moreover have "(0::rat) \<le> of_int (s * 5 + 27 + cf * 2) + 3 / 5"
    using s cf by simp
  ultimately show ?thesis
    unfolding drps_formula_def py_int_def by simp
qed

lemma generated_safety_scores_scale:
  "\<forall>r\<in>set generated_safety_scores. 0 \<le> safety_impact_score r \<and> safety_impact_score r \<le> 10"
  by (simp add: generated_safety_scores_def)

lemma example_diagnosis:
  "fst (get_diagnosis_and_drps (''veh_007'', flagged_record) example_world) = Inr (''Brakes'', 95)"
  by (simp add: run_defs example_defs string_defs drps_formula_def py_int_def floor_unique)

text \<open>
  C9, as the source has it. The score is not clamped: it is between 0 and 100 when the
  safety scores of the table are on the scale from 0 to 10, as those written by
  \<^verbatim>\<open>generate_data.py\<close> are. Then every score the diagnosis step returns, for every
  vehicle, anomaly, answer of the model and customer table, is between 0 and 100.
\<close>

theorem drps_within_bounds_on_ten_point_scale:
  assumes run: "fst (get_diagnosis_and_drps (vid, anomaly) w) = Inr (c, d)"
    and df: "safety_csv w = Some df"
    and scale: "\<forall>r\<in>set df. 0 \<le> safety_impact_score r \<and> safety_impact_score r \<le> 10"
  shows "0 \<le> d \<and> d \<le> 100"
proof -
  from run obtain w' where "get_diagnosis_and_drps (vid, anomaly) w = (Inr (c, d), w')"
    by (cases "get_diagnosis_and_drps (vid, anomaly) w") simp
  then show ?thesis
  proof (rule get_diagnosis_and_drps_success)
    fix df' cdf content s p
    assume df': "safety_csv w = Some df'"
      and s: "filter (\<lambda>r. component r = c) df' = [s]"
      and d: "d = drps_formula (safety_impact_score s) (92 / 100 * 10)
             (if driving_style p = ''Highway'' then 9 else 5)"
    from s have "s \<in> set df'" using filter_singleton_mem by fastforce
    with df df' scale have b: "0 \<le> safety_impact_score s" "safety_impact_score s \<le> 10"
      by auto
    show ?thesis
    proof (cases "driving_style p = ''Highway''")
      case True
      with d b drps_formula_demo [of "safety_impact_score s" 9] show ?thesis by simp
    next
      case False
      with d b drps_formula_demo [of "safety_impact_score s" 5] show ?thesis by simp
    qed
  qed
qed

theorem drps_within_bounds_on_ten_point_scale_witness:
  "fst (get_diagnosis_and_drps (''veh_007'', flagged_record) example_world) = Inr (''Brakes'', 95)
   \<and> safety_csv example_world = Some generated_safety_scores
   \<and> map safety_impact_score generated_safety_scores = [10, 9, 8, 9, 7, 8, 3, 1]
   \<and> (0::int) \<le> 95 \<and> (95::int) \<le> 100"
proof -
  have df: "safety_csv example_world = Some generated_safety_scores"
    by (simp add: example_world_def)
  have scores: "map safety_impact_score generated_safety_scores = [10, 9, 8, 9, 7, 8, 3, 1]"
    by (simp add: generated_safety_scores_def)
  note bounds = drps_within_bounds_on_ten_point_scale
         [OF example_diagnosis df generated_safety_scores_scale]
  show ?thesis
    by (intro conjI example_diagnosis df scores conjunct1 [OF bounds] conjunct2 [OF bounds])
qed

text \<open>
  C9, as stated, fails: with a safety table that gives \<^verbatim>\<open>Brakes\<close> the score 20, the
  diagnosis step returns the priority score 145 for the flagged record of a highway
  driver.
\<close>

theorem drps_above_100_counterexample:
  "fst (get_diagnosis_and_drps (''veh_007'', flagged_record) high_severity_world)
     = Inr (''Brakes'', 145)
   \<and> \<not> (145::int) \<le> 100"
  by (simp add: run_defs example_defs string_defs drps_formula_def py_int_def floor_unique)

subsection \<open>The feedback node\<close>








end
